theory Spec2Isabelle
  imports Complex_Main
begin

section \<open>Text: Python strings as lists of code points\<close>

text \<open>
  A Python \<open>str\<close> is a sequence of Unicode code points, and the source tests code points
  (the range U+0900..U+097F), so a string is a list of natural numbers, one per code point.
  \<open>ustr\<close> reads an ASCII literal.
\<close>

type_synonym ustring = "nat list"

definition ustr :: "string \<Rightarrow> ustring" where
  "ustr s = map of_char s"

text \<open>
  \<open>str.strip()\<close> with no argument removes leading and trailing white space, which for a
  \<open>str\<close> is every code point with \<open>str.isspace\<close>.
\<close>

definition isspace :: "nat \<Rightarrow> bool" where
  "isspace c \<longleftrightarrow>
     (9 \<le> c \<and> c \<le> 13) \<or> (28 \<le> c \<and> c \<le> 32) \<or> c = 133 \<or> c = 160 \<or> c = 5760 \<or>
     (8192 \<le> c \<and> c \<le> 8202) \<or> c = 8232 \<or> c = 8233 \<or> c = 8239 \<or> c = 8287 \<or> c = 12288"

definition strip :: "ustring \<Rightarrow> ustring" where
  "strip s = rev (dropWhile isspace (rev (dropWhile isspace s)))"

text \<open>
  \<open>str.lower()\<close>: an ASCII code point is lowered by the fixed ASCII rule. The lowering of
  every other code point comes from the Unicode case tables (and, for capital sigma, from
  its neighbours); those tables are no part of the repository, so they are a parameter
  that receives the whole string and the position and returns the replacement.
\<close>

definition ascii_lower :: "nat \<Rightarrow> nat" where
  "ascii_lower c = (if 65 \<le> c \<and> c \<le> 90 then c + 32 else c)"

definition lower :: "(ustring \<Rightarrow> nat \<Rightarrow> ustring) \<Rightarrow> ustring \<Rightarrow> ustring" where
  "lower tbl s =
     concat (map (\<lambda>i. if s ! i < 128 then [ascii_lower (s ! i)] else tbl s i) [0..<length s])"

text \<open>\<open>word in text\<close> on strings: \<open>word\<close> occurs as a contiguous run of \<open>text\<close>.\<close>

fun startswith :: "ustring \<Rightarrow> ustring \<Rightarrow> bool" where
  "startswith s [] = True"
| "startswith [] (w # ws) = False"
| "startswith (c # cs) (w # ws) = (c = w \<and> startswith cs ws)"

fun contains :: "ustring \<Rightarrow> ustring \<Rightarrow> bool" where
  "contains word [] = (word = [])"
| "contains word (c # cs) = (startswith (c # cs) word \<or> contains word cs)"

text \<open>
  \<open>re.search\<close> with the character class U+0900..U+097F: some code point of the text is
  in the range.
\<close>

definition has_devanagari :: "ustring \<Rightarrow> bool" where
  "has_devanagari s = list_ex (\<lambda>c. 2304 \<le> c \<and> c \<le> 2431) s"

text \<open>
  \<open>re.fullmatch(pattern, text)\<close>. Every pattern of the table below consists of letters,
  spaces and one apostrophe, none of which is a regular-expression metacharacter
  (lemma \<open>predefined_patterns_literal\<close>), so the pattern denotes exactly one string and
  the whole text matches it precisely when the two are equal.
\<close>

definition re_meta :: "nat list" where
  "re_meta = [46, 94, 36, 42, 43, 63, 123, 125, 91, 93, 92, 124, 40, 41]"

definition re_fullmatch :: "ustring \<Rightarrow> ustring \<Rightarrow> bool" where
  "re_fullmatch pattern text \<longleftrightarrow> text = pattern"


section \<open>The collaborators and the loaded data\<close>

text \<open>
  The language detector, the translation service and the sentence-embedding model are
  external. Each is a parameter: \<open>detect\<close> and \<open>translate\<close> return \<open>None\<close> where the
  library call raises; \<open>cos_sim query question\<close> is the cosine similarity of the two
  encoded texts (a float, read as the real number it denotes); \<open>to_lower\<close> is the case
  table used by \<open>lower\<close>. \<open>qa_data\<close> is the list loaded at start-up.
\<close>

record services =
  qa_data :: "(ustring \<times> ustring) list"
  detect :: "ustring \<Rightarrow> string option"
  translate :: "ustring \<Rightarrow> string \<Rightarrow> string \<Rightarrow> ustring option"
  cos_sim :: "ustring \<Rightarrow> ustring \<Rightarrow> real"
  to_lower :: "ustring \<Rightarrow> nat \<Rightarrow> ustring"

text \<open>
  \<open>load_dataset\<close>: the file is absent (\<open>None\<close>) or holds one (prompt, completion) pair per
  line; the prompt is stored lowercased. A missing file leaves the list empty.
\<close>

definition load_dataset ::
    "(ustring \<Rightarrow> nat \<Rightarrow> ustring) \<Rightarrow> (ustring \<times> ustring) list option \<Rightarrow> (ustring \<times> ustring) list" where
  "load_dataset tbl file =
     (case file of
        None \<Rightarrow> []
      | Some lines \<Rightarrow> map (\<lambda>(prompt, completion). (lower tbl prompt, completion)) lines)"

text \<open>The calls made to library code, in the order they are made.\<close>

datatype call =
    Detect ustring
  | Translate ustring string string
  | Fullmatch ustring ustring
  | Encode ustring

datatype py_error = ValueError | IndexError | AttributeError

record outcome =
  response :: ustring
  confidence :: real
  calls :: "call list"

definition reply :: "ustring \<Rightarrow> real \<Rightarrow> call list \<Rightarrow> outcome" where
  "reply text score cs = \<lparr>response = text, confidence = score, calls = cs\<rparr>"


section \<open>The fixed tables\<close>

definition predefined_responses :: "(ustring \<times> ustring) list" where
  "predefined_responses =
    [(ustr ''how are you'', ustr ''I'm just a chatbot, but I'm doing great! How about you?''),
     (ustr ''how's it going'', ustr ''Everything is running smoothly! How can I assist you?''),
     (ustr ''how do you do'', ustr ''I'm doing well! Thanks for asking. How can I help?''),
     (ustr ''what is your name'',
      ustr ''I'm your Agricultural Chatbot! Here to assist you with farming-related queries.''),
     (ustr ''who are you'',
      ustr ''I'm an AI-powered agricultural chatbot, here to help farmers and agriculture enthusiasts.''),
     (ustr ''what can you do'',
      ustr ''I can provide information related to farming, crops, and agricultural best practices.''),
     (ustr ''who created you'',
      ustr ''I was developed as part of a research project on AI and ML-powered agricultural chatbots.''),
     (ustr ''are you a robot'',
      ustr ''Yes, I'm an AI chatbot, designed to help with agricultural questions.''),
     (ustr ''do you speak other languages'', ustr ''Currently, I only support English.''),
     (ustr ''tell me a joke'',
      ustr ''Why did the farmer win an award? Because he was outstanding in his field!''),
     (ustr ''tell me something interesting'',
      ustr ''Did you know? Earthworms can improve soil fertility by breaking down organic matter into nutrient-rich compost!''),
     (ustr ''hello'', ustr ''Hello! How can I assist you today?''),
     (ustr ''hi'', ustr ''Hi there! What would you like to know?''),
     (ustr ''hey'', ustr ''Hey! How'' @ [8217] @ ustr ''s it going?''),
     (ustr ''good morning'', ustr ''Good morning! Hope you have a great day ahead.''),
     (ustr ''good afternoon'', ustr ''Good afternoon! How can I help?''),
     (ustr ''good evening'', ustr ''Good evening! Need any assistance?''),
     (ustr ''good night'', ustr ''Good night! Take care and rest well.''),
     (ustr ''howdy'', ustr ''Howdy! What brings you here today?''),
     (ustr ''yo'', ustr ''Yo! What's up?''),
     (ustr ''namaste'', ustr ''Namaste! How can I assist you?''),
     (ustr ''hola'', ustr ''Hola! How can I help you?''),
     (ustr ''bonjour'', ustr ''Bonjour! What do you need assistance with?'')]"

definition hindi_marathi_keywords :: "ustring list" where
  "hindi_marathi_keywords =
    map ustr
     [''kya'', ''kaise'', ''kab'', ''kyu'', ''bhat'', ''sheti'', ''pani'',
      ''fasal'', ''ugae'', ''zameen'', ''shet'', ''krishi'', ''beej'',
      ''ugana'', ''ugaye'', ''khet'', ''paani'', ''anna'', ''jal'', ''khad'', ''rog'',
      ''beej'', ''sheti'']"

definition allowed_languages :: "string list" where
  "allowed_languages = [''en'', ''hi'', ''mr'', ''gu'', ''bn'', ''ta'', ''te'', ''kn'', ''ml'', ''pa'']"

definition no_data_message :: ustring where
  "no_data_message = ustr ''Error: No data available.''"

definition rejection_message :: ustring where
  "rejection_message =
     ustr ''Sorry, I can only understand major Indian languages like Hindi, Marathi, Gujarati, Bengali, Tamil, Telugu, Kannada, Malayalam, Punjabi, and English.''"

definition fallback_message :: ustring where
  "fallback_message = ustr ''I'm sorry, I don't have an answer for that.''"


section \<open>\<open>find_best_response\<close>, stage by stage\<close>

text \<open>
  The local variables of \<open>find_best_response\<close>, each as a function of the environment and
  the trimmed input \<open>original_input\<close>.
\<close>

definition is_romanish :: "services \<Rightarrow> ustring \<Rightarrow> bool" where
  "is_romanish env original_input =
     list_ex (\<lambda>word. contains word (lower (to_lower env) original_input)) hindi_marathi_keywords"

definition detected_lang :: "services \<Rightarrow> ustring \<Rightarrow> string" where
  "detected_lang env original_input =
     (if is_romanish env original_input then ''hi''
      else case detect env original_input of Some tag \<Rightarrow> tag | None \<Rightarrow> ''en'')"

definition rejected :: "services \<Rightarrow> ustring \<Rightarrow> bool" where
  "rejected env original_input \<longleftrightarrow>
     detected_lang env original_input \<notin> set allowed_languages \<and> \<not> has_devanagari original_input"

definition needs_translation :: "services \<Rightarrow> ustring \<Rightarrow> bool" where
  "needs_translation env original_input \<longleftrightarrow>
     detected_lang env original_input \<noteq> ''en'' \<or> has_devanagari original_input
       \<or> is_romanish env original_input"

definition translated :: "services \<Rightarrow> ustring \<Rightarrow> ustring" where
  "translated env original_input =
     strip (lower (to_lower env)
       (if needs_translation env original_input then
          (case translate env original_input ''auto'' ''en'' of
             Some text \<Rightarrow> text
           | None \<Rightarrow> original_input)
        else original_input))"

definition inbound_calls :: "services \<Rightarrow> ustring \<Rightarrow> call list" where
  "inbound_calls env original_input =
     (if needs_translation env original_input then [Translate original_input ''auto'' ''en'']
      else [])"

text \<open>
  The three response-side blocks are the same code: under \<open>needs_translation\<close> the text
  is translated from English to the detected language, and an exception leaves it as it
  was.
\<close>

definition outbound :: "services \<Rightarrow> ustring \<Rightarrow> ustring \<Rightarrow> ustring" where
  "outbound env original_input text =
     (if needs_translation env original_input then
        (case translate env text ''en'' (detected_lang env original_input) of
           Some text' \<Rightarrow> text'
         | None \<Rightarrow> text)
      else text)"

definition outbound_calls :: "services \<Rightarrow> ustring \<Rightarrow> ustring \<Rightarrow> call list" where
  "outbound_calls env original_input text =
     (if needs_translation env original_input
      then [Translate text ''en'' (detected_lang env original_input)]
      else [])"

text \<open>The loop over the pattern table: the first rule that matches the whole text.\<close>

fun match_patterns :: "(ustring \<times> ustring) list \<Rightarrow> ustring \<Rightarrow> ustring option \<times> call list" where
  "match_patterns [] text = (None, [])"
| "match_patterns ((pattern, resp) # rules) text =
     (if re_fullmatch pattern text then (Some resp, [Fullmatch pattern text])
      else (case match_patterns rules text of
              (hit, cs) \<Rightarrow> (hit, Fullmatch pattern text # cs)))"

text \<open>
  \<open>np.argmax\<close>: the first position of the greatest element; it raises on an empty
  sequence (\<open>None\<close>).
\<close>

fun argmax :: "real list \<Rightarrow> nat option" where
  "argmax [] = None"
| "argmax (x # xs) =
     (case argmax xs of
        None \<Rightarrow> Some 0
      | Some j \<Rightarrow> if x < xs ! j then Some (Suc j) else Some 0)"

definition similarities :: "services \<Rightarrow> ustring \<Rightarrow> real list" where
  "similarities env text = map (\<lambda>qa. cos_sim env text (fst qa)) (qa_data env)"

text \<open>
  Lines 117 to 152: the pattern table, then the embedding search, on the processed text
  \<open>text\<close>; \<open>before\<close> holds the calls made so far. \<open>similarities[best_match_idx]\<close> and
  \<open>qa_data[best_match_idx]\<close> raise where the index is out of range.
\<close>

definition resolve :: "services \<Rightarrow> ustring \<Rightarrow> ustring \<Rightarrow> call list \<Rightarrow> py_error + outcome" where
  "resolve env original_input text before =
     (case match_patterns predefined_responses text of
        (Some resp, tried) \<Rightarrow>
          Inr (reply (outbound env original_input resp) 1
                (before @ tried @ outbound_calls env original_input resp))
      | (None, tried) \<Rightarrow>
          (case argmax (similarities env text) of
             None \<Rightarrow> Inl ValueError
           | Some best_match_idx \<Rightarrow>
               let best_match_score = similarities env text ! best_match_idx;
                   searched = before @ tried @ [Encode text]
               in if best_match_score < 1 / 2 then
                    Inr (reply (outbound env original_input fallback_message) best_match_score
                          (searched @ outbound_calls env original_input fallback_message))
                  else if best_match_idx < length (qa_data env) then
                    let resp = snd (qa_data env ! best_match_idx)
                    in Inr (reply (outbound env original_input resp) best_match_score
                             (searched @ outbound_calls env original_input resp))
                  else Inl IndexError))"

text \<open>Lines 70 to 115, and then \<open>resolve\<close> on the processed text.\<close>

definition find_best_response :: "services \<Rightarrow> ustring \<Rightarrow> py_error + outcome" where
  "find_best_response env user_input =
    (if qa_data env = [] then Inr (reply no_data_message 0 [])
     else
       let original_input = strip user_input in
       if rejected env original_input then
         Inr (reply rejection_message 0 [Detect original_input])
       else
         resolve env original_input (translated env original_input)
           (Detect original_input # inbound_calls env original_input))"


section \<open>The \<open>/chat\<close> endpoint\<close>

datatype json =
    JNull
  | JBool bool
  | JNumber real
  | JString ustring
  | JArray "json list"
  | JObject "ustring \<rightharpoonup> json"

record http_response =
  status :: nat
  body_response :: ustring
  body_confidence :: real

text \<open>
  \<open>round(x, 2)\<close> on a float: the multiple of 0.01 nearest to the exact value, a tie going
  to the even multiple.
\<close>

definition round2 :: "real \<Rightarrow> real" where
  "round2 x =
     (let y = x * 100; f = \<lfloor>y\<rfloor>; d = y - of_int f
      in of_int (if d < 1 / 2 then f else if 1 / 2 < d then f + 1
                 else if even f then f else f + 1) / 100)"

text \<open>
  \<open>data.get("message", "").strip()\<close>: \<open>data\<close> is the parsed request body, an object being
  a dictionary from keys to values. \<open>get\<close> exists on a dictionary only, and \<open>strip\<close> on a
  string only; anything else raises \<open>AttributeError\<close>. \<open>jsonify\<close> alone answers with
  status 200.
\<close>

definition chat :: "services \<Rightarrow> json \<Rightarrow> py_error + http_response" where
  "chat env data =
     (case data of
        JObject members \<Rightarrow>
          (case (case members (ustr ''message'') of None \<Rightarrow> JString [] | Some v \<Rightarrow> v) of
             JString message \<Rightarrow>
               let user_input = strip message in
               if user_input = [] then
                 Inr \<lparr>status = 400, body_response = ustr ''Please enter a valid question.'',
                      body_confidence = 0\<rparr>
               else
                 (case find_best_response env user_input of
                    Inl e \<Rightarrow> Inl e
                  | Inr r \<Rightarrow>
                      Inr \<lparr>status = 200, body_response = response r,
                           body_confidence = round2 (confidence r)\<rparr>)
           | _ \<Rightarrow> Inl AttributeError)
      | _ \<Rightarrow> Inl AttributeError)"


section \<open>Failing translation calls\<close>

text \<open>
  The translation service in which every call that fails is replaced by a call that
  returns its input text unchanged.
\<close>

definition substitute_untranslated ::
    "(ustring \<Rightarrow> string \<Rightarrow> string \<Rightarrow> ustring option) \<Rightarrow> ustring \<Rightarrow> string \<Rightarrow> string \<Rightarrow> ustring option" where
  "substitute_untranslated tr text src dest =
     (case tr text src dest of Some text' \<Rightarrow> Some text' | None \<Rightarrow> Some text)"


section \<open>Sample environments\<close>

text \<open>
  A small data set and stand-ins for the three services, used to run the definitions on
  concrete inputs. The detector answers \<open>hi\<close> for Devanagari text, \<open>fr\<close> for
  \<open>bonjour\<close>, fails on the empty text and answers \<open>en\<close> otherwise. On the way in the
  translator turns \<open>namaste_hi\<close> into \<open>Hello\<close>, \<open>gehun_hi\<close> into \<open>Growing Wheat\<close> (with
  a space on either side) and every other text into \<open>Tractor price\<close>. On the way out it
  fails for the apology into Hindi, and otherwise marks the text as translated by putting
  three Devanagari code points, a colon and a space in front of it (\<open>to_hindi\<close>).
\<close>

definition namaste_hi :: ustring where
  "namaste_hi = [2344, 2350, 2360, 2381, 2340, 2375]"

definition kisan_hi :: ustring where
  "kisan_hi = [2325, 2367, 2360, 2366, 2344]"

definition gehun_hi :: ustring where
  "gehun_hi = [2327, 2375, 2361, 2370, 2306]"

definition to_hindi :: "ustring \<Rightarrow> ustring" where
  "to_hindi text = [2361, 2367, 2306, 58, 32] @ text"

definition demo_services :: services where
  "demo_services =
     \<lparr>qa_data = [(ustr ''how to grow wheat'', ustr ''Sow wheat in November.''),
                 (ustr ''what is compost'', ustr ''Compost is decayed organic matter.'')],
      detect = (\<lambda>text. if text = [] then None
                       else if has_devanagari text then Some ''hi''
                       else if text = ustr ''bonjour'' then Some ''fr''
                       else Some ''en''),
      translate = (\<lambda>text src dest.
                     if dest = ''en''
                     then (if text = namaste_hi then Some (ustr ''Hello'')
                           else if text = gehun_hi then Some (ustr '' Growing Wheat '')
                           else Some (ustr ''Tractor price''))
                     else if dest = ''hi'' \<and> text = fallback_message then None
                     else Some (to_hindi text)),
      cos_sim = (\<lambda>query question.
                   if question = ustr ''how to grow wheat''
                   then (if query = ustr ''growing wheat'' then 3 / 4
                         else if query = ustr ''wheat rust'' then 97 / 128
                         else 1 / 4)
                   else 1 / 8),
      to_lower = (\<lambda>s i. [s ! i])\<rparr>"

text \<open>The same with the data set file missing, with a detector that always answers
  \<open>mr\<close> or always \<open>en\<close>, with a translation service that is down, and with an embedding
  model whose similarities are negative.\<close>

definition no_data_services :: services where
  "no_data_services = demo_services\<lparr>qa_data := load_dataset (to_lower demo_services) None\<rparr>"

definition marathi_services :: services where
  "marathi_services = demo_services\<lparr>detect := (\<lambda>text. Some ''mr'')\<rparr>"

definition english_only_services :: services where
  "english_only_services = demo_services\<lparr>detect := (\<lambda>text. Some ''en'')\<rparr>"

definition offline_services :: services where
  "offline_services = demo_services\<lparr>translate := (\<lambda>text src dest. None)\<rparr>"

definition distant_services :: services where
  "distant_services = demo_services\<lparr>cos_sim := (\<lambda>query question. - 1 / 4)\<rparr>"


section \<open>Auxiliary facts\<close>

lemma startswith_iff: "startswith s w \<longleftrightarrow> (\<exists>post. s = w @ post)"
  by (induction s w rule: startswith.induct) auto

lemma contains_iff: "contains w s \<longleftrightarrow> (\<exists>pre post. s = pre @ w @ post)"
proof (induction s)
  case Nil
  show ?case by auto
next
  case (Cons c cs)
  have "(\<exists>pre post. c # cs = pre @ w @ post) \<longleftrightarrow>
        (\<exists>post. c # cs = w @ post) \<or> (\<exists>pre post. cs = pre @ w @ post)"
    by (auto simp: Cons_eq_append_conv)
  with Cons show ?case
    by (simp add: startswith_iff)
qed

lemma argmax_None: "argmax xs = None \<longleftrightarrow> xs = []"
  by (induction xs) (auto split: option.splits)

lemma argmax_Some:
  "argmax xs = Some i \<Longrightarrow>
     i < length xs \<and> (\<forall>j<length xs. xs ! j \<le> xs ! i) \<and> (\<forall>j<i. xs ! j < xs ! i)"
proof (induction xs arbitrary: i)
  case Nil
  then show ?case by simp
next
  case (Cons x xs)
  show ?case
  proof (cases "argmax xs")
    case None
    then have "xs = []" by (simp add: argmax_None)
    with Cons.prems None show ?thesis by simp
  next
    case (Some k)
    note IH = Cons.IH [OF Some]
    show ?thesis
    proof (cases "x < xs ! k")
      case True
      with Some Cons.prems have i: "i = Suc k" by simp
      from IH True show ?thesis
        unfolding i by (auto simp: nth_Cons' less_Suc_eq_0_disj intro: less_le_trans order.strict_implies_order)
    next
      case False
      with Some Cons.prems have i: "i = 0" by simp
      from IH False show ?thesis
        unfolding i by (auto simp: nth_Cons' less_Suc_eq_0_disj intro: order_trans)
    qed
  qed
qed

lemma argmax_Max: "argmax xs = Some i \<Longrightarrow> xs ! i = Max (set xs)"
proof -
  assume a: "argmax xs = Some i"
  from argmax_Some [OF a] have i: "i < length xs" and m: "\<forall>j<length xs. xs ! j \<le> xs ! i"
    by simp_all
  have "Max (set xs) = xs ! i"
  proof (rule Max_eqI)
    show "finite (set xs)" by simp
    show "xs ! i \<in> set xs" using i by simp
    fix y assume "y \<in> set xs"
    then show "y \<le> xs ! i" using m by (auto simp: in_set_conv_nth)
  qed
  then show ?thesis by simp
qed

lemma dropWhile_ex:
  "(\<And>c. Q c \<Longrightarrow> \<not> P c) \<Longrightarrow> list_ex Q (dropWhile P s) = list_ex Q s"
  by (induction s) auto

lemma has_devanagari_strip: "has_devanagari (strip s) = has_devanagari s"
proof -
  have sp: "\<And>c. 2304 \<le> c \<and> c \<le> 2431 \<Longrightarrow> \<not> isspace c"
    by (auto simp: isspace_def)
  have "list_ex (\<lambda>c. 2304 \<le> c \<and> c \<le> 2431) (rev (dropWhile isspace (rev (dropWhile isspace s))))
        = list_ex (\<lambda>c. 2304 \<le> c \<and> c \<le> 2431) (dropWhile isspace (rev (dropWhile isspace s)))"
    by (simp add: list_ex_iff)
  also have "\<dots> = list_ex (\<lambda>c. 2304 \<le> c \<and> c \<le> 2431) (rev (dropWhile isspace s))"
    by (rule dropWhile_ex) (rule sp)
  also have "\<dots> = list_ex (\<lambda>c. 2304 \<le> c \<and> c \<le> 2431) (dropWhile isspace s)"
    by (simp add: list_ex_iff)
  also have "\<dots> = list_ex (\<lambda>c. 2304 \<le> c \<and> c \<le> 2431) s"
    by (rule dropWhile_ex) (rule sp)
  finally show ?thesis by (simp add: has_devanagari_def strip_def)
qed

lemma match_patterns_hit:
  "(p, r) \<in> set rules \<Longrightarrow> re_fullmatch p t \<Longrightarrow> distinct (map fst rules) \<Longrightarrow>
     fst (match_patterns rules t) = Some r"
  by (induction rules t rule: match_patterns.induct)
     (auto simp: re_fullmatch_def rev_image_eqI split: prod.splits)

lemma match_patterns_miss:
  "fst (match_patterns rules t) = None \<longleftrightarrow> (\<forall>(p, r)\<in>set rules. \<not> re_fullmatch p t)"
  by (induction rules t rule: match_patterns.induct) (auto split: prod.splits)

lemma match_patterns_calls:
  "Translate a b c \<notin> set (snd (match_patterns rules t))"
  by (induction rules t rule: match_patterns.induct) (auto split: prod.splits)

lemma predefined_patterns_distinct: "distinct (map fst predefined_responses)"
  by (simp add: predefined_responses_def ustr_def)

lemma predefined_patterns_literal:
  "\<forall>(pattern, resp)\<in>set predefined_responses. \<forall>c\<in>set pattern. c \<notin> set re_meta"
  by (simp add: predefined_responses_def ustr_def re_meta_def)

lemma round2_multiple: "\<exists>k::int. round2 x = of_int k / 100"
  by (auto simp: round2_def Let_def)

lemma round2_near: "\<bar>round2 x - x\<bar> \<le> 1 / 200"
proof -
  define y where "y = x * 100"
  define f where "f = \<lfloor>y\<rfloor>"
  have f: "of_int f \<le> y" "y < of_int f + 1" unfolding f_def by linarith+
  have "\<bar>round2 x * 100 - y\<bar> \<le> 1 / 2"
    using f by (auto simp: round2_def Let_def y_def[symmetric] f_def[symmetric])
  then show ?thesis unfolding y_def by linarith
qed

lemmas text_defs = ustr_def strip_def isspace_def lower_def ascii_lower_def upt_rec

lemmas stage_defs = is_romanish_def detected_lang_def rejected_def needs_translation_def
  translated_def has_devanagari_def hindi_marathi_keywords_def allowed_languages_def
  re_fullmatch_def


section \<open>The three ways through \<open>find_best_response\<close>\<close>

lemma similarities_nonempty: "qa_data env \<noteq> [] \<Longrightarrow> similarities env text \<noteq> []"
  by (simp add: similarities_def)

lemma resolve_hit:
  assumes "match_patterns predefined_responses text = (Some resp, tried)"
  shows "resolve env a text before =
           Inr (reply (outbound env a resp) 1 (before @ tried @ outbound_calls env a resp))"
  using assms by (simp add: resolve_def)

lemma resolve_miss:
  assumes data: "qa_data env \<noteq> []"
    and miss: "match_patterns predefined_responses text = (None, tried)"
    and sims: "sims = similarities env text"
  shows "\<exists>idx. argmax sims = Some idx \<and> idx < length (qa_data env) \<and>
           resolve env a text before =
             Inr (reply
                   (outbound env a
                      (if sims ! idx < 1 / 2 then fallback_message else snd (qa_data env ! idx)))
                   (sims ! idx)
                   (before @ tried @ Encode text
                      # outbound_calls env a
                          (if sims ! idx < 1 / 2 then fallback_message
                           else snd (qa_data env ! idx))))"
proof -
  from data have "sims \<noteq> []" by (simp add: sims similarities_nonempty)
  then obtain idx where idx: "argmax sims = Some idx"
    by (cases "argmax sims") (auto simp: argmax_None)
  from argmax_Some [OF idx] have len: "idx < length (qa_data env)"
    by (simp add: sims similarities_def)
  from miss idx len show ?thesis
    by (simp add: resolve_def Let_def sims [symmetric])
qed

lemma find_best_response_resolve:
  assumes "qa_data env \<noteq> []" and "\<not> rejected env (strip user_input)"
  shows "find_best_response env user_input =
           resolve env (strip user_input) (translated env (strip user_input))
             (Detect (strip user_input) # inbound_calls env (strip user_input))"
  using assms by (simp add: find_best_response_def Let_def)

lemma find_best_response_hit:
  assumes "qa_data env \<noteq> []" and "\<not> rejected env (strip user_input)"
    and "match_patterns predefined_responses (translated env (strip user_input)) = (Some resp, tried)"
  shows "find_best_response env user_input =
           Inr (reply (outbound env (strip user_input) resp) 1
                 (Detect (strip user_input) # inbound_calls env (strip user_input) @ tried
                    @ outbound_calls env (strip user_input) resp))"
  using assms by (simp add: find_best_response_resolve resolve_hit)

lemma find_best_response_miss:
  assumes data: "qa_data env \<noteq> []" and pass: "\<not> rejected env (strip user_input)"
    and miss: "match_patterns predefined_responses (translated env (strip user_input)) = (None, tried)"
    and sims: "sims = similarities env (translated env (strip user_input))"
  shows "\<exists>idx. argmax sims = Some idx \<and> idx < length (qa_data env) \<and>
           find_best_response env user_input =
             Inr (reply
                   (outbound env (strip user_input)
                      (if sims ! idx < 1 / 2 then fallback_message else snd (qa_data env ! idx)))
                   (sims ! idx)
                   (Detect (strip user_input) # inbound_calls env (strip user_input) @ tried
                      @ Encode (translated env (strip user_input))
                      # outbound_calls env (strip user_input)
                          (if sims ! idx < 1 / 2 then fallback_message
                           else snd (qa_data env ! idx))))"
  using resolve_miss [OF data miss sims, of "strip user_input"
      "Detect (strip user_input) # inbound_calls env (strip user_input)"]
  by (simp add: find_best_response_resolve [OF data pass])

lemma find_best_response_total:
  "\<exists>r. find_best_response env user_input = Inr r \<and>
       (confidence r = 0 \<or> confidence r = 1
        \<or> confidence r \<in> set (similarities env (translated env (strip user_input))))"
proof (cases "qa_data env = [] \<or> rejected env (strip user_input)")
  case True
  then show ?thesis by (auto simp: find_best_response_def Let_def reply_def)
next
  case False
  then have data: "qa_data env \<noteq> []" and pass: "\<not> rejected env (strip user_input)"
    by simp_all
  obtain hit tried
    where m: "match_patterns predefined_responses (translated env (strip user_input)) = (hit, tried)"
    by (cases "match_patterns predefined_responses (translated env (strip user_input))")
  show ?thesis
  proof (cases hit)
    case (Some resp)
    with find_best_response_hit [OF data pass] m show ?thesis by (simp add: reply_def)
  next
    case None
    with find_best_response_miss [OF data pass _ refl] m obtain idx r
      where "argmax (similarities env (translated env (strip user_input))) = Some idx"
        and "find_best_response env user_input = Inr r"
        and "confidence r = similarities env (translated env (strip user_input)) ! idx"
      by (fastforce simp: reply_def)
    with argmax_Some [of "similarities env (translated env (strip user_input))" idx]
    show ?thesis by simp
  qed
qed

lemma confidence_on_each_path:
  assumes gate: "gate \<longleftrightarrow> qa_data env = [] \<or> rejected env (strip user_input)"
    and hit: "hit \<longleftrightarrow> (\<exists>(pattern, resp)\<in>set predefined_responses.
                          re_fullmatch pattern (translated env (strip user_input)))"
  shows "\<exists>r. find_best_response env user_input = Inr r \<and>
           confidence r =
             (if gate then 0 else if hit then 1
              else Max (set (similarities env (translated env (strip user_input)))))"
proof (cases gate)
  case True
  with gate show ?thesis by (auto simp: find_best_response_def Let_def reply_def)
next
  case False
  with gate have data: "qa_data env \<noteq> []" and pass: "\<not> rejected env (strip user_input)"
    by simp_all
  obtain found tried
    where m: "match_patterns predefined_responses (translated env (strip user_input)) = (found, tried)"
    by (cases "match_patterns predefined_responses (translated env (strip user_input))")
  show ?thesis
  proof (cases found)
    case (Some resp)
    with m have "fst (match_patterns predefined_responses (translated env (strip user_input))) \<noteq> None"
      by simp
    then have hit unfolding hit match_patterns_miss by blast
    with find_best_response_hit [OF data pass] m Some False show ?thesis
      by (simp add: reply_def)
  next
    case None
    with m have "fst (match_patterns predefined_responses (translated env (strip user_input))) = None"
      by simp
    then have nohit: "\<not> hit" unfolding hit match_patterns_miss by blast
    from find_best_response_miss [OF data pass _ refl] m None obtain idx r
      where idx: "argmax (similarities env (translated env (strip user_input))) = Some idx"
        and r: "find_best_response env user_input = Inr r"
        and c: "confidence r = similarities env (translated env (strip user_input)) ! idx"
      by (fastforce simp: reply_def)
    from argmax_Max [OF idx] r c nohit False show ?thesis by simp
  qed
qed

lemma is_romanish_detect: "is_romanish (env\<lparr>detect := d\<rparr>) s = is_romanish env s"
  by (simp add: is_romanish_def)

lemma is_romanish_iff:
  "is_romanish env s \<longleftrightarrow>
     (\<exists>word\<in>set hindi_marathi_keywords. \<exists>pre post. lower (to_lower env) s = pre @ word @ post)"
  by (simp add: is_romanish_def list_ex_iff contains_iff)

lemma outbound_calls_not_inbound: "Translate a ''auto'' ''en'' \<notin> set (outbound_calls env b text)"
  by (simp add: outbound_calls_def)

lemma resolve_calls:
  assumes "resolve env a text before = Inr r"
  shows "\<exists>rest. calls r = before @ rest \<and> Translate b ''auto'' ''en'' \<notin> set rest"
proof -
  obtain found tried where m: "match_patterns predefined_responses text = (found, tried)"
    by (cases "match_patterns predefined_responses text")
  have tried: "Translate b ''auto'' ''en'' \<notin> set tried"
    using match_patterns_calls [of b "''auto''" "''en''" predefined_responses "text"] m by simp
  from assms m tried show ?thesis
    by (auto simp: resolve_def Let_def reply_def outbound_calls_not_inbound
          split: option.splits if_splits)
qed

lemma substitute_stage [simp]:
  "is_romanish (env\<lparr>translate := tr\<rparr>) s = is_romanish env s"
  "detected_lang (env\<lparr>translate := tr\<rparr>) s = detected_lang env s"
  "rejected (env\<lparr>translate := tr\<rparr>) s = rejected env s"
  "needs_translation (env\<lparr>translate := tr\<rparr>) s = needs_translation env s"
  "inbound_calls (env\<lparr>translate := tr\<rparr>) s = inbound_calls env s"
  "outbound_calls (env\<lparr>translate := tr\<rparr>) s text = outbound_calls env s text"
  "similarities (env\<lparr>translate := tr\<rparr>) text = similarities env text"
  by (simp_all add: is_romanish_def detected_lang_def rejected_def needs_translation_def
        inbound_calls_def outbound_calls_def similarities_def)

lemma substitute_translated:
  "translated (env\<lparr>translate := substitute_untranslated (translate env)\<rparr>) s = translated env s"
  by (simp add: translated_def substitute_untranslated_def split: option.split)

lemma substitute_outbound:
  "outbound (env\<lparr>translate := substitute_untranslated (translate env)\<rparr>) s text = outbound env s text"
  by (simp add: outbound_def substitute_untranslated_def split: option.split)

lemma demo_data: "qa_data demo_services \<noteq> []"
  by (simp add: demo_services_def)


section \<open>The claims\<close>

text \<open>
  Claim C1 says that, with a non-empty data set, an input whose processed text is matched
  in full by a rule of the table receives that rule's response with confidence 1. The
  input \<open>bonjour\<close>, detected as \<open>fr\<close> while the translation service is down, has the
  processed text \<open>bonjour\<close>, which the rule \<open>bonjour\<close> matches; it is stopped at the
  language gate and receives the rejection message with confidence 0.
\<close>

theorem pattern_hit_rejected_counterexample:
  "qa_data offline_services \<noteq> [] \<and>
   (ustr ''bonjour'', ustr ''Bonjour! What do you need assistance with?'')
     \<in> set predefined_responses \<and>
   needs_translation offline_services (strip (ustr ''bonjour'')) \<and>
   translate offline_services (strip (ustr ''bonjour'')) ''auto'' ''en'' = None \<and>
   translated offline_services (strip (ustr ''bonjour'')) = ustr ''bonjour'' \<and>
   re_fullmatch (ustr ''bonjour'') (translated offline_services (strip (ustr ''bonjour''))) \<and>
   find_best_response offline_services (ustr ''bonjour'') =
     Inr \<lparr>response = rejection_message, confidence = 0, calls = [Detect (ustr ''bonjour'')]\<rparr> \<and>
   rejection_message \<noteq> ustr ''Bonjour! What do you need assistance with?''"
proof -
  have data: "qa_data offline_services \<noteq> []"
    by (simp add: offline_services_def demo_services_def)
  have rule: "(ustr ''bonjour'', ustr ''Bonjour! What do you need assistance with?'')
                \<in> set predefined_responses"
    by (simp add: predefined_responses_def)
  have s: "strip (ustr ''bonjour'') = ustr ''bonjour''"
    by (simp add: text_defs)
  have st: "needs_translation offline_services (ustr ''bonjour'')"
      "translate offline_services (ustr ''bonjour'') ''auto'' ''en'' = None"
      "translated offline_services (ustr ''bonjour'') = ustr ''bonjour''"
      "rejected offline_services (ustr ''bonjour'')"
    by (simp_all add: offline_services_def demo_services_def text_defs stage_defs)
  have ne: "rejection_message \<noteq> ustr ''Bonjour! What do you need assistance with?''"
    by (simp add: rejection_message_def ustr_def)
  from data rule st ne show ?thesis
    by (simp add: s find_best_response_def Let_def reply_def re_fullmatch_def)
qed

text \<open>
  Claim C1, amended. With a non-empty data set and an input that passes the language gate
  (its tag is in the allow-list or it has a Devanagari code point), if the processed text
  (the input, translated to English under the flag, then lowercased and trimmed; the input
  itself where that translation fails) is matched in full by the pattern of a rule of the
  table, the result carries confidence exactly 1 and that rule's response, translated to
  the detected language under the flag (and left as it is when that translation fails).
\<close>

theorem pattern_hit_confidence_one:
  assumes data: "qa_data env \<noteq> []"
    and orig: "original_input = strip user_input"
    and flag: "flag \<longleftrightarrow> detected_lang env original_input \<noteq> ''en''
                 \<or> has_devanagari original_input \<or> is_romanish env original_input"
    and proc: "text = strip (lower (to_lower env)
                  (if flag then (case translate env original_input ''auto'' ''en'' of
                                   Some t \<Rightarrow> t | None \<Rightarrow> original_input)
                   else original_input))"
    and pass: "detected_lang env original_input \<in> set allowed_languages
                 \<or> has_devanagari original_input"
    and rule: "(pattern, resp) \<in> set predefined_responses"
    and full: "re_fullmatch pattern text"
  shows "\<exists>r. find_best_response env user_input = Inr r \<and> confidence r = 1 \<and>
           response r =
             (if flag then
                (case translate env resp ''en'' (detected_lang env original_input) of
                   Some resp' \<Rightarrow> resp'
                 | None \<Rightarrow> resp)
              else resp)"
proof -
  have rd: "needs_translation env original_input = flag"
      "translated env original_input = text"
      "inbound_calls env original_input =
         (if flag then [Translate original_input ''auto'' ''en''] else [])"
    using flag proc
    by (simp_all add: needs_translation_def translated_def inbound_calls_def)
  from pass have pass': "\<not> rejected env (strip user_input)"
    by (auto simp: rejected_def orig)
  have "fst (match_patterns predefined_responses text) = Some resp"
    using rule full predefined_patterns_distinct by (rule match_patterns_hit)
  then obtain tried
    where "match_patterns predefined_responses (translated env (strip user_input)) = (Some resp, tried)"
    unfolding rd(2) orig [symmetric]
    by (cases "match_patterns predefined_responses text") simp
  from find_best_response_hit [OF data pass' this] show ?thesis
    by (simp add: reply_def outbound_def orig [symmetric] rd(1))
qed

theorem pattern_hit_confidence_one_witness:
  "(\<exists>r. find_best_response demo_services (ustr '' Hello '') = Inr r \<and> confidence r = 1 \<and>
        response r = ustr ''Hello! How can I assist you today?'') \<and>
   (\<exists>r. find_best_response demo_services namaste_hi = Inr r \<and> confidence r = 1 \<and>
        response r = to_hindi (ustr ''Hello! How can I assist you today?''))"
proof -
  have rule: "(ustr ''hello'', ustr ''Hello! How can I assist you today?'') \<in> set predefined_responses"
    by (simp add: predefined_responses_def)
  have full: "re_fullmatch (ustr ''hello'') (ustr ''hello'')"
    by (simp add: re_fullmatch_def)
  have en: "ustr ''Hello'' = strip (ustr '' Hello '')"
      "False \<longleftrightarrow> detected_lang demo_services (ustr ''Hello'') \<noteq> ''en''
         \<or> has_devanagari (ustr ''Hello'') \<or> is_romanish demo_services (ustr ''Hello'')"
      "ustr ''hello'' = strip (lower (to_lower demo_services)
          (if False then (case translate demo_services (ustr ''Hello'') ''auto'' ''en'' of
                            Some t \<Rightarrow> t | None \<Rightarrow> ustr ''Hello'')
           else ustr ''Hello''))"
      "detected_lang demo_services (ustr ''Hello'') \<in> set allowed_languages
         \<or> has_devanagari (ustr ''Hello'')"
    by (simp_all add: demo_services_def text_defs stage_defs)
  have hi: "namaste_hi = strip namaste_hi"
      "True \<longleftrightarrow> detected_lang demo_services namaste_hi \<noteq> ''en''
         \<or> has_devanagari namaste_hi \<or> is_romanish demo_services namaste_hi"
      "ustr ''hello'' = strip (lower (to_lower demo_services)
          (if True then (case translate demo_services namaste_hi ''auto'' ''en'' of
                           Some t \<Rightarrow> t | None \<Rightarrow> namaste_hi)
           else namaste_hi))"
      "detected_lang demo_services namaste_hi \<in> set allowed_languages
         \<or> has_devanagari namaste_hi"
      "detected_lang demo_services namaste_hi = ''hi''"
    by (simp_all add: demo_services_def namaste_hi_def text_defs stage_defs)
  have tr: "translate demo_services (ustr ''Hello! How can I assist you today?'') ''en'' ''hi''
              = Some (to_hindi (ustr ''Hello! How can I assist you today?''))"
    by (simp add: demo_services_def fallback_message_def ustr_def)
  from pattern_hit_confidence_one [OF demo_data en(1) en(2) en(3) en(4) rule full]
       pattern_hit_confidence_one [OF demo_data hi(1) hi(2) hi(3) hi(4) rule full]
  show ?thesis
    by (simp add: hi(5) tr)
qed

text \<open>
  Claim C2. With a non-empty data set, an input that passes the language gate and no rule
  matching the processed text, the confidence is the greatest similarity over the stored
  questions, unclamped. If it is at least 0.5 the response is the stored answer at the
  first position of that maximum, otherwise the fixed apology; under the flag either text
  is translated from English to the detected language, and stays as it is when that
  translation fails.
\<close>

theorem embedding_threshold:
  assumes data: "qa_data env \<noteq> []"
    and orig: "original_input = strip user_input"
    and flag: "flag \<longleftrightarrow> detected_lang env original_input \<noteq> ''en''
                 \<or> has_devanagari original_input \<or> is_romanish env original_input"
    and proc: "text = strip (lower (to_lower env)
                  (if flag then (case translate env original_input ''auto'' ''en'' of
                                   Some t \<Rightarrow> t | None \<Rightarrow> original_input)
                   else original_input))"
    and pass: "detected_lang env original_input \<in> set allowed_languages
                 \<or> has_devanagari original_input"
    and miss: "\<forall>(pattern, resp)\<in>set predefined_responses. \<not> re_fullmatch pattern text"
    and sims: "sims = map (\<lambda>qa. cos_sim env text (fst qa)) (qa_data env)"
  shows "\<exists>r idx. find_best_response env user_input = Inr r \<and>
           argmax sims = Some idx \<and> idx < length (qa_data env) \<and>
           sims ! idx = Max (set sims) \<and> (\<forall>j<idx. sims ! j < Max (set sims)) \<and>
           confidence r = Max (set sims) \<and>
           (1 / 2 \<le> Max (set sims) \<longrightarrow>
              response r =
                (if flag then
                   (case translate env (snd (qa_data env ! idx)) ''en''
                           (detected_lang env original_input) of
                      Some answer \<Rightarrow> answer
                    | None \<Rightarrow> snd (qa_data env ! idx))
                 else snd (qa_data env ! idx))) \<and>
           (Max (set sims) < 1 / 2 \<longrightarrow>
              response r =
                (if flag then
                   (case translate env (ustr ''I'm sorry, I don't have an answer for that.'')
                           ''en'' (detected_lang env original_input) of
                      Some apology \<Rightarrow> apology
                    | None \<Rightarrow> ustr ''I'm sorry, I don't have an answer for that.'')
                 else ustr ''I'm sorry, I don't have an answer for that.''))"
proof -
  have rd: "needs_translation env original_input = flag"
      "translated env original_input = text"
      "inbound_calls env original_input =
         (if flag then [Translate original_input ''auto'' ''en''] else [])"
    using flag proc
    by (simp_all add: needs_translation_def translated_def inbound_calls_def)
  from pass have pass': "\<not> rejected env (strip user_input)"
    by (auto simp: rejected_def orig)
  have sims': "sims = similarities env (translated env (strip user_input))"
    by (simp add: sims similarities_def rd(2) orig [symmetric])
  from miss have "fst (match_patterns predefined_responses text) = None"
    by (simp only: match_patterns_miss)
  then obtain tried
    where "match_patterns predefined_responses (translated env (strip user_input)) = (None, tried)"
    unfolding rd(2) orig [symmetric]
    by (cases "match_patterns predefined_responses text") simp
  from find_best_response_miss [OF data pass' this sims'] obtain idx r
    where idx: "argmax sims = Some idx" and len: "idx < length (qa_data env)"
      and r: "find_best_response env user_input = Inr r"
      and conf: "confidence r = sims ! idx"
      and resp: "response r = outbound env original_input
                      (if sims ! idx < 1 / 2 then fallback_message else snd (qa_data env ! idx))"
    by (auto simp: reply_def orig)
  from argmax_Max [OF idx] have mx: "sims ! idx = Max (set sims)" .
  from argmax_Some [OF idx] have first: "\<forall>j<idx. sims ! j < Max (set sims)"
    by (simp add: mx)
  from idx len r conf resp [unfolded fallback_message_def] mx first show ?thesis
    by (auto simp: outbound_def rd(1))
qed

theorem embedding_threshold_witness:
  "(\<exists>r. find_best_response demo_services (ustr ''growing wheat'') = Inr r \<and>
        confidence r = 3 / 4 \<and> response r = ustr ''Sow wheat in November.'') \<and>
   (\<exists>r. find_best_response demo_services gehun_hi = Inr r \<and>
        confidence r = 3 / 4 \<and> response r = to_hindi (ustr ''Sow wheat in November.'')) \<and>
   (\<exists>r. find_best_response demo_services kisan_hi = Inr r \<and>
        confidence r = 1 / 4 \<and>
        response r = ustr ''I'm sorry, I don't have an answer for that.'') \<and>
   (\<exists>r. find_best_response marathi_services (ustr ''tractor price'') = Inr r \<and>
        confidence r = 1 / 4 \<and>
        response r = to_hindi (ustr ''I'm sorry, I don't have an answer for that.''))"
proof -
  have data: "qa_data marathi_services \<noteq> []"
    by (simp add: marathi_services_def demo_services_def)
  have a: "ustr ''growing wheat'' = strip (ustr ''growing wheat'')"
      "False \<longleftrightarrow> detected_lang demo_services (ustr ''growing wheat'') \<noteq> ''en''
         \<or> has_devanagari (ustr ''growing wheat'')
         \<or> is_romanish demo_services (ustr ''growing wheat'')"
      "ustr ''growing wheat'' = strip (lower (to_lower demo_services)
          (if False then (case translate demo_services (ustr ''growing wheat'') ''auto'' ''en'' of
                            Some t \<Rightarrow> t | None \<Rightarrow> ustr ''growing wheat'')
           else ustr ''growing wheat''))"
      "detected_lang demo_services (ustr ''growing wheat'') \<in> set allowed_languages
         \<or> has_devanagari (ustr ''growing wheat'')"
    by (simp_all add: demo_services_def text_defs stage_defs)
  have b: "gehun_hi = strip gehun_hi"
      "True \<longleftrightarrow> detected_lang demo_services gehun_hi \<noteq> ''en''
         \<or> has_devanagari gehun_hi \<or> is_romanish demo_services gehun_hi"
      "ustr ''growing wheat'' = strip (lower (to_lower demo_services)
          (if True then (case translate demo_services gehun_hi ''auto'' ''en'' of
                           Some t \<Rightarrow> t | None \<Rightarrow> gehun_hi)
           else gehun_hi))"
      "detected_lang demo_services gehun_hi \<in> set allowed_languages \<or> has_devanagari gehun_hi"
      "detected_lang demo_services gehun_hi = ''hi''"
    by (simp_all add: demo_services_def gehun_hi_def namaste_hi_def text_defs stage_defs)
  have c: "kisan_hi = strip kisan_hi"
      "True \<longleftrightarrow> detected_lang demo_services kisan_hi \<noteq> ''en''
         \<or> has_devanagari kisan_hi \<or> is_romanish demo_services kisan_hi"
      "ustr ''tractor price'' = strip (lower (to_lower demo_services)
          (if True then (case translate demo_services kisan_hi ''auto'' ''en'' of
                           Some t \<Rightarrow> t | None \<Rightarrow> kisan_hi)
           else kisan_hi))"
      "detected_lang demo_services kisan_hi \<in> set allowed_languages \<or> has_devanagari kisan_hi"
      "detected_lang demo_services kisan_hi = ''hi''"
    by (simp_all add: demo_services_def kisan_hi_def gehun_hi_def namaste_hi_def text_defs stage_defs)
  have d: "ustr ''tractor price'' = strip (ustr ''tractor price'')"
      "True \<longleftrightarrow> detected_lang marathi_services (ustr ''tractor price'') \<noteq> ''en''
         \<or> has_devanagari (ustr ''tractor price'')
         \<or> is_romanish marathi_services (ustr ''tractor price'')"
      "ustr ''tractor price'' = strip (lower (to_lower marathi_services)
          (if True then (case translate marathi_services (ustr ''tractor price'') ''auto'' ''en'' of
                           Some t \<Rightarrow> t | None \<Rightarrow> ustr ''tractor price'')
           else ustr ''tractor price''))"
      "detected_lang marathi_services (ustr ''tractor price'') \<in> set allowed_languages
         \<or> has_devanagari (ustr ''tractor price'')"
      "detected_lang marathi_services (ustr ''tractor price'') = ''mr''"
    by (simp_all add: marathi_services_def demo_services_def gehun_hi_def namaste_hi_def
          text_defs stage_defs)
  have am: "\<forall>(pattern, resp)\<in>set predefined_responses.
              \<not> re_fullmatch pattern (ustr ''growing wheat'')"
    by (simp add: predefined_responses_def re_fullmatch_def ustr_def)
  have cm: "\<forall>(pattern, resp)\<in>set predefined_responses.
              \<not> re_fullmatch pattern (ustr ''tractor price'')"
    by (simp add: predefined_responses_def re_fullmatch_def ustr_def)
  have as: "map (\<lambda>qa. cos_sim demo_services (ustr ''growing wheat'') (fst qa))
              (qa_data demo_services) = [3 / 4, 1 / 8]"
    by (simp add: demo_services_def ustr_def)
  have cs: "map (\<lambda>qa. cos_sim demo_services (ustr ''tractor price'') (fst qa))
              (qa_data demo_services) = [1 / 4, 1 / 8]"
    by (simp add: demo_services_def ustr_def)
  have ds: "map (\<lambda>qa. cos_sim marathi_services (ustr ''tractor price'') (fst qa))
              (qa_data marathi_services) = [1 / 4, 1 / 8]"
    by (simp add: marathi_services_def demo_services_def ustr_def)
  have q: "snd (qa_data demo_services ! 0) = ustr ''Sow wheat in November.''"
    by (simp add: demo_services_def)
  have tr: "translate demo_services (ustr ''Sow wheat in November.'') ''en'' ''hi''
              = Some (to_hindi (ustr ''Sow wheat in November.''))"
      "translate demo_services (ustr ''I'm sorry, I don't have an answer for that.'') ''en'' ''hi''
              = None"
      "translate marathi_services (ustr ''I'm sorry, I don't have an answer for that.'') ''en'' ''mr''
              = Some (to_hindi (ustr ''I'm sorry, I don't have an answer for that.''))"
    by (simp_all add: marathi_services_def demo_services_def fallback_message_def ustr_def)
  from embedding_threshold [OF demo_data a(1) a(2) a(3) a(4) am as [symmetric]]
  have 1: "\<exists>r. find_best_response demo_services (ustr ''growing wheat'') = Inr r \<and>
        confidence r = 3 / 4 \<and> response r = ustr ''Sow wheat in November.''"
    by (auto simp: q)
  from embedding_threshold [OF demo_data b(1) b(2) b(3) b(4) am as [symmetric]]
  have 2: "\<exists>r. find_best_response demo_services gehun_hi = Inr r \<and>
        confidence r = 3 / 4 \<and> response r = to_hindi (ustr ''Sow wheat in November.'')"
    by (auto simp: q b(5) tr(1))
  from embedding_threshold [OF demo_data c(1) c(2) c(3) c(4) cm cs [symmetric]]
  have 3: "\<exists>r. find_best_response demo_services kisan_hi = Inr r \<and>
        confidence r = 1 / 4 \<and>
        response r = ustr ''I'm sorry, I don't have an answer for that.''"
    by (auto simp: c(5) tr(2))
  from embedding_threshold [OF data d(1) d(2) d(3) d(4) cm ds [symmetric]]
  have 4: "\<exists>r. find_best_response marathi_services (ustr ''tractor price'') = Inr r \<and>
        confidence r = 1 / 4 \<and>
        response r = to_hindi (ustr ''I'm sorry, I don't have an answer for that.'')"
    by (auto simp: d(5) tr(3))
  from 1 2 3 4 show ?thesis by blast
qed

text \<open>
  Claim C3. With a non-empty data set, if the language tag after the keyword override is
  outside the allow-list and the raw text has no code point in U+0900..U+097F, the result
  is the fixed English rejection message with confidence 0, and the only library call made
  is the language detection: no translation, no pattern match, no encoding.
\<close>

theorem unsupported_language_rejected:
  assumes data: "qa_data env \<noteq> []"
    and tag: "detected_lang env (strip user_input) \<notin> set allowed_languages"
    and script: "\<not> has_devanagari user_input"
  shows "find_best_response env user_input =
           Inr \<lparr>response = rejection_message, confidence = 0, calls = [Detect (strip user_input)]\<rparr>"
  using assms by (simp add: find_best_response_def resolve_def Let_def rejected_def has_devanagari_strip reply_def)

theorem unsupported_language_rejected_witness:
  "find_best_response demo_services (ustr ''bonjour'') =
     Inr \<lparr>response = rejection_message, confidence = 0, calls = [Detect (ustr ''bonjour'')]\<rparr>"
proof -
  have data: "qa_data demo_services \<noteq> []"
    by (simp add: demo_services_def)
  have tag: "detected_lang demo_services (strip (ustr ''bonjour'')) \<notin> set allowed_languages"
    by (simp add: demo_services_def text_defs stage_defs)
  have script: "\<not> has_devanagari (ustr ''bonjour'')"
    by (simp add: has_devanagari_def ustr_def)
  have s: "strip (ustr ''bonjour'') = ustr ''bonjour''"
    by (simp add: text_defs)
  from unsupported_language_rejected [OF data tag script] show ?thesis
    by (simp add: s)
qed

text \<open>
  Claim C4 says that with an empty data set an input matched by a rule of the pattern
  table still receives that rule's response. With the data set file missing, the input
  \<open>hello\<close> is matched by the rule \<open>hello\<close> and is answered with the "no data" message.
\<close>

theorem empty_dataset_counterexample:
  "qa_data no_data_services = [] \<and>
   (ustr ''hello'', ustr ''Hello! How can I assist you today?'') \<in> set predefined_responses \<and>
   re_fullmatch (ustr ''hello'') (translated no_data_services (strip (ustr ''hello''))) \<and>
   find_best_response no_data_services (ustr ''hello'') =
     Inr \<lparr>response = ustr ''Error: No data available.'', confidence = 0, calls = []\<rparr> \<and>
   ustr ''Error: No data available.'' \<noteq> ustr ''Hello! How can I assist you today?''"
proof -
  have data: "qa_data no_data_services = []"
    by (simp add: no_data_services_def load_dataset_def)
  have rule: "(ustr ''hello'', ustr ''Hello! How can I assist you today?'') \<in> set predefined_responses"
    by (simp add: predefined_responses_def)
  have full: "re_fullmatch (ustr ''hello'') (translated no_data_services (strip (ustr ''hello'')))"
    by (simp add: no_data_services_def demo_services_def text_defs stage_defs)
  have ne: "ustr ''Error: No data available.'' \<noteq> ustr ''Hello! How can I assist you today?''"
    by (simp add: ustr_def)
  from data rule full ne show ?thesis
    by (simp add: find_best_response_def reply_def no_data_message_def)
qed

text \<open>
  Claim C4, amended. With an empty data set every input, whether or not a rule of the
  pattern table would match it, is answered with the fixed message
  \<open>Error: No data available.\<close> and confidence 0, and no library call is made.
\<close>

theorem empty_dataset_answers_no_data:
  assumes "qa_data env = []"
  shows "find_best_response env user_input =
           Inr \<lparr>response = no_data_message, confidence = 0, calls = []\<rparr>"
  using assms by (simp add: find_best_response_def reply_def)

theorem empty_dataset_answers_no_data_witness:
  "qa_data no_data_services = [] \<and>
   find_best_response no_data_services (ustr ''good morning'') =
     Inr \<lparr>response = no_data_message, confidence = 0, calls = []\<rparr>"
proof -
  have data: "qa_data no_data_services = []"
    by (simp add: no_data_services_def load_dataset_def)
  from empty_dataset_answers_no_data [OF data] data show ?thesis
    by simp
qed

text \<open>
  Claim C5 says that the confidence is in [0, 1] for every input. The best similarity is
  returned as it is: where every stored question has similarity -0.25 to the query, the
  confidence is -0.25.
\<close>

theorem confidence_counterexample:
  "map_sum id confidence (find_best_response distant_services (ustr ''tractor price'')) = Inr (- 1 / 4)
   \<and> \<not> (0::real) \<le> - 1 / 4"
proof -
  have data: "qa_data distant_services \<noteq> []"
    by (simp add: distant_services_def demo_services_def)
  have b: "\<not> rejected distant_services (strip (ustr ''tractor price''))"
      "translated distant_services (strip (ustr ''tractor price'')) = ustr ''tractor price''"
    by (simp_all add: distant_services_def demo_services_def text_defs stage_defs)
  have bm: "fst (match_patterns predefined_responses (ustr ''tractor price'')) = None"
    unfolding match_patterns_miss by (simp add: predefined_responses_def re_fullmatch_def ustr_def)
  then obtain tried where m: "match_patterns predefined_responses (ustr ''tractor price'') = (None, tried)"
    by (cases "match_patterns predefined_responses (ustr ''tractor price'')") simp
  have bs: "similarities distant_services (ustr ''tractor price'') = [- 1 / 4, - 1 / 4]"
    by (simp add: similarities_def distant_services_def demo_services_def)
  from data b m bs show ?thesis
    by (simp add: find_best_response_def resolve_def Let_def reply_def)
qed

text \<open>
  Claim C5, amended. The confidence is 0 when the data set is empty or the input is
  rejected, 1 when a rule of the table matches the processed text, and otherwise the
  greatest similarity over the stored questions, returned unclamped. So it lies in [0, 1]
  exactly when the input does not reach the embedding search or that greatest similarity
  lies in [0, 1].
\<close>

theorem confidence_by_path_unclamped:
  assumes orig: "original_input = strip user_input"
    and flag: "flag \<longleftrightarrow> detected_lang env original_input \<noteq> ''en''
                 \<or> has_devanagari original_input \<or> is_romanish env original_input"
    and proc: "text = strip (lower (to_lower env)
                  (if flag then (case translate env original_input ''auto'' ''en'' of
                                   Some t \<Rightarrow> t | None \<Rightarrow> original_input)
                   else original_input))"
    and gate: "gate \<longleftrightarrow> qa_data env = []
                 \<or> (detected_lang env original_input \<notin> set allowed_languages
                     \<and> \<not> has_devanagari original_input)"
    and hit: "hit \<longleftrightarrow> (\<exists>(pattern, resp)\<in>set predefined_responses. re_fullmatch pattern text)"
    and best: "best = Max (set (map (\<lambda>qa. cos_sim env text (fst qa)) (qa_data env)))"
  shows "\<exists>r. find_best_response env user_input = Inr r \<and>
           confidence r = (if gate then 0 else if hit then 1 else best) \<and>
           (0 \<le> confidence r \<and> confidence r \<le> 1
              \<longleftrightarrow> gate \<or> hit \<or> 0 \<le> best \<and> best \<le> 1)"
proof -
  have rd: "needs_translation env original_input = flag"
      "translated env original_input = text"
      "inbound_calls env original_input =
         (if flag then [Translate original_input ''auto'' ''en''] else [])"
    using flag proc
    by (simp_all add: needs_translation_def translated_def inbound_calls_def)
  have g: "gate \<longleftrightarrow> qa_data env = [] \<or> rejected env (strip user_input)"
    by (simp add: gate rejected_def orig)
  have h: "hit \<longleftrightarrow> (\<exists>(pattern, resp)\<in>set predefined_responses.
                        re_fullmatch pattern (translated env (strip user_input)))"
    by (simp add: hit rd(2) orig [symmetric])
  have b: "best = Max (set (similarities env (translated env (strip user_input))))"
    by (simp add: best similarities_def rd(2) orig [symmetric])
  from confidence_on_each_path [OF g h] show ?thesis
    unfolding b [symmetric] by auto
qed

theorem confidence_by_path_unclamped_witness:
  "(\<exists>r. find_best_response demo_services (ustr ''tractor price'') = Inr r \<and>
        confidence r = 1 / 4 \<and> 0 \<le> confidence r \<and> confidence r \<le> 1) \<and>
   (\<exists>r. find_best_response distant_services (ustr ''tractor price'') = Inr r \<and>
        confidence r = - 1 / 4 \<and> \<not> (0 \<le> confidence r \<and> confidence r \<le> 1)) \<and>
   (\<exists>r. find_best_response distant_services (ustr ''hello'') = Inr r \<and> confidence r = 1) \<and>
   (\<exists>r. find_best_response distant_services (ustr ''bonjour'') = Inr r \<and> confidence r = 0)"
proof -
  have a: "ustr ''tractor price'' = strip (ustr ''tractor price'')"
      "False \<longleftrightarrow> detected_lang demo_services (ustr ''tractor price'') \<noteq> ''en''
         \<or> has_devanagari (ustr ''tractor price'')
         \<or> is_romanish demo_services (ustr ''tractor price'')"
      "ustr ''tractor price'' = strip (lower (to_lower demo_services)
          (if False then (case translate demo_services (ustr ''tractor price'') ''auto'' ''en'' of
                            Some t \<Rightarrow> t | None \<Rightarrow> ustr ''tractor price'')
           else ustr ''tractor price''))"
      "False \<longleftrightarrow> qa_data demo_services = []
         \<or> (detected_lang demo_services (ustr ''tractor price'') \<notin> set allowed_languages
             \<and> \<not> has_devanagari (ustr ''tractor price''))"
    by (simp_all add: demo_services_def text_defs stage_defs)
  have b: "False \<longleftrightarrow> detected_lang distant_services (ustr ''tractor price'') \<noteq> ''en''
         \<or> has_devanagari (ustr ''tractor price'')
         \<or> is_romanish distant_services (ustr ''tractor price'')"
      "ustr ''tractor price'' = strip (lower (to_lower distant_services)
          (if False then (case translate distant_services (ustr ''tractor price'') ''auto'' ''en'' of
                            Some t \<Rightarrow> t | None \<Rightarrow> ustr ''tractor price'')
           else ustr ''tractor price''))"
      "False \<longleftrightarrow> qa_data distant_services = []
         \<or> (detected_lang distant_services (ustr ''tractor price'') \<notin> set allowed_languages
             \<and> \<not> has_devanagari (ustr ''tractor price''))"
    by (simp_all add: distant_services_def demo_services_def text_defs stage_defs)
  have c: "ustr ''hello'' = strip (ustr ''hello'')"
      "False \<longleftrightarrow> detected_lang distant_services (ustr ''hello'') \<noteq> ''en''
         \<or> has_devanagari (ustr ''hello'') \<or> is_romanish distant_services (ustr ''hello'')"
      "ustr ''hello'' = strip (lower (to_lower distant_services)
          (if False then (case translate distant_services (ustr ''hello'') ''auto'' ''en'' of
                            Some t \<Rightarrow> t | None \<Rightarrow> ustr ''hello'')
           else ustr ''hello''))"
      "False \<longleftrightarrow> qa_data distant_services = []
         \<or> (detected_lang distant_services (ustr ''hello'') \<notin> set allowed_languages
             \<and> \<not> has_devanagari (ustr ''hello''))"
    by (simp_all add: distant_services_def demo_services_def text_defs stage_defs)
  have d: "ustr ''bonjour'' = strip (ustr ''bonjour'')"
      "True \<longleftrightarrow> detected_lang distant_services (ustr ''bonjour'') \<noteq> ''en''
         \<or> has_devanagari (ustr ''bonjour'') \<or> is_romanish distant_services (ustr ''bonjour'')"
      "ustr ''tractor price'' = strip (lower (to_lower distant_services)
          (if True then (case translate distant_services (ustr ''bonjour'') ''auto'' ''en'' of
                           Some t \<Rightarrow> t | None \<Rightarrow> ustr ''bonjour'')
           else ustr ''bonjour''))"
      "True \<longleftrightarrow> qa_data distant_services = []
         \<or> (detected_lang distant_services (ustr ''bonjour'') \<notin> set allowed_languages
             \<and> \<not> has_devanagari (ustr ''bonjour''))"
    by (simp_all add: distant_services_def demo_services_def gehun_hi_def namaste_hi_def
          text_defs stage_defs)
  have miss: "False \<longleftrightarrow> (\<exists>(pattern, resp)\<in>set predefined_responses.
                            re_fullmatch pattern (ustr ''tractor price''))"
    by (simp add: predefined_responses_def re_fullmatch_def ustr_def)
  have hit: "True \<longleftrightarrow> (\<exists>(pattern, resp)\<in>set predefined_responses.
                            re_fullmatch pattern (ustr ''hello''))"
    by (simp add: predefined_responses_def re_fullmatch_def ustr_def)
  have as: "1 / 4 = Max (set (map (\<lambda>qa. cos_sim demo_services (ustr ''tractor price'') (fst qa))
                               (qa_data demo_services)))"
    by (simp add: demo_services_def ustr_def)
  have bs: "- 1 / 4 = Max (set (map (\<lambda>qa. cos_sim distant_services (ustr ''tractor price'') (fst qa))
                               (qa_data distant_services)))"
    by (simp add: distant_services_def demo_services_def)
  have cs: "- 1 / 4 = Max (set (map (\<lambda>qa. cos_sim distant_services (ustr ''hello'') (fst qa))
                               (qa_data distant_services)))"
    by (simp add: distant_services_def demo_services_def)
  from confidence_by_path_unclamped [OF a(1) a(2) a(3) a(4) miss as]
       confidence_by_path_unclamped [OF a(1) b(1) b(2) b(3) miss bs]
       confidence_by_path_unclamped [OF c(1) c(2) c(3) c(4) hit cs]
       confidence_by_path_unclamped [OF d(1) d(2) d(3) d(4) miss bs]
  show ?thesis
    by auto
qed

text \<open>
  Claim C6. If the lowercased raw text contains a keyword of the romanized Hindi/Marathi
  list, then whatever the detector \<open>d\<close> answers (or if it fails), the language tag is
  \<open>hi\<close>, \<open>needs_translation\<close> holds, and the input is not rejected.
\<close>

theorem romanized_keyword_forces_hindi:
  assumes "word \<in> set hindi_marathi_keywords"
    and "contains word (lower (to_lower env) original_input)"
  shows "detected_lang (env\<lparr>detect := d\<rparr>) original_input = ''hi'' \<and>
         needs_translation (env\<lparr>detect := d\<rparr>) original_input \<and>
         \<not> rejected (env\<lparr>detect := d\<rparr>) original_input"
proof -
  from assms have "is_romanish (env\<lparr>detect := d\<rparr>) original_input"
    by (auto simp: is_romanish_def list_ex_iff)
  then show ?thesis
    by (simp add: detected_lang_def needs_translation_def rejected_def allowed_languages_def)
qed

theorem romanized_keyword_forces_hindi_witness:
  "ustr ''sheti'' \<in> set hindi_marathi_keywords \<and>
   contains (ustr ''sheti'') (lower (to_lower demo_services) (ustr ''SHETI tips'')) \<and>
   detect english_only_services (ustr ''SHETI tips'') = Some ''en'' \<and>
   detected_lang english_only_services (ustr ''SHETI tips'') = ''hi'' \<and>
   needs_translation english_only_services (ustr ''SHETI tips'') \<and>
   \<not> rejected english_only_services (ustr ''SHETI tips'')"
proof -
  have k: "ustr ''sheti'' \<in> set hindi_marathi_keywords"
    by (simp add: hindi_marathi_keywords_def)
  have c: "contains (ustr ''sheti'') (lower (to_lower demo_services) (ustr ''SHETI tips''))"
    by (simp add: demo_services_def text_defs)
  have d: "detect english_only_services (ustr ''SHETI tips'') = Some ''en''"
    by (simp add: english_only_services_def)
  from romanized_keyword_forces_hindi [OF k c, of "\<lambda>text. Some ''en''"] k c d show ?thesis
    by (simp add: english_only_services_def)
qed

text \<open>
  Claim C7 says that the request-side translation is attempted exactly when the flag is
  true. For the input \<open>bonjour\<close>, detected as \<open>fr\<close>, the flag is true (the tag is not
  \<open>en\<close>), and the input is rejected at the language gate before any translation: the
  only call made is the detection. With the data set file missing, the Devanagari input
  \<open>namaste_hi\<close> has the flag true as well, and no call at all is made.
\<close>

theorem inbound_translation_counterexample:
  "needs_translation demo_services (strip (ustr ''bonjour'')) \<and>
   detected_lang demo_services (strip (ustr ''bonjour'')) = ''fr'' \<and>
   find_best_response demo_services (ustr ''bonjour'') =
     Inr \<lparr>response = rejection_message, confidence = 0, calls = [Detect (ustr ''bonjour'')]\<rparr> \<and>
   Translate (strip (ustr ''bonjour'')) ''auto'' ''en'' \<notin> set [Detect (ustr ''bonjour'')] \<and>
   needs_translation no_data_services (strip namaste_hi) \<and>
   has_devanagari (strip namaste_hi) \<and>
   find_best_response no_data_services namaste_hi =
     Inr \<lparr>response = no_data_message, confidence = 0, calls = []\<rparr>"
proof -
  have s: "strip (ustr ''bonjour'') = ustr ''bonjour''" "strip namaste_hi = namaste_hi"
    by (simp_all add: namaste_hi_def text_defs)
  have a: "needs_translation demo_services (ustr ''bonjour'')"
      "detected_lang demo_services (ustr ''bonjour'') = ''fr''"
      "rejected demo_services (ustr ''bonjour'')"
    by (simp_all add: demo_services_def text_defs stage_defs)
  have b: "needs_translation no_data_services namaste_hi" "has_devanagari namaste_hi"
      "qa_data no_data_services = []"
    by (simp_all add: no_data_services_def load_dataset_def needs_translation_def
          has_devanagari_def namaste_hi_def)
  from a b demo_data show ?thesis
    by (simp add: s find_best_response_def Let_def reply_def)
qed

text \<open>
  Claim C7, amended. For an input that reaches the translation step (non-empty data set,
  and the tag in the allow-list or a Devanagari code point in the text):
  \<open>needs_translation\<close> is true exactly when the final tag is not \<open>en\<close>, or the raw text has
  a Devanagari code point, or the keyword override fired. The request-side call
  \<open>translate(original_input, src='auto', dest='en')\<close> is made once when it is true and not
  at all otherwise, and the text handed to the pattern table and the embedding search is
  the lowercased, trimmed result of that call (the input itself when the call fails or is
  not made). In particular a text with a Devanagari code point is translated whatever its
  tag.
\<close>

theorem needs_translation_gates_inbound:
  assumes data: "qa_data env \<noteq> []"
    and orig: "original_input = strip user_input"
    and flag: "flag \<longleftrightarrow> detected_lang env original_input \<noteq> ''en''
                 \<or> has_devanagari original_input \<or> is_romanish env original_input"
    and proc: "text = strip (lower (to_lower env)
                  (if flag then (case translate env original_input ''auto'' ''en'' of
                                   Some t \<Rightarrow> t | None \<Rightarrow> original_input)
                   else original_input))"
    and pass: "detected_lang env original_input \<in> set allowed_languages
                 \<or> has_devanagari original_input"
  shows "needs_translation env original_input = flag \<and>
         find_best_response env user_input =
           resolve env original_input text
             (Detect original_input
                # (if flag then [Translate original_input ''auto'' ''en''] else [])) \<and>
         (\<exists>r. find_best_response env user_input = Inr r \<and>
              count_list (calls r) (Translate original_input ''auto'' ''en'') =
                (if flag then 1 else 0) \<and>
              (has_devanagari original_input \<longrightarrow>
                 Translate original_input ''auto'' ''en'' \<in> set (calls r)))"
proof -
  have rd: "needs_translation env original_input = flag"
      "translated env original_input = text"
      "inbound_calls env original_input =
         (if flag then [Translate original_input ''auto'' ''en''] else [])"
    using flag proc
    by (simp_all add: needs_translation_def translated_def inbound_calls_def)
  from pass have pass': "\<not> rejected env (strip user_input)"
    by (auto simp: rejected_def orig)
  have eq: "find_best_response env user_input =
           resolve env original_input text
             (Detect original_input
                # (if flag then [Translate original_input ''auto'' ''en''] else []))"
    by (simp add: find_best_response_resolve [OF data pass'] orig [symmetric] rd)
  obtain r where r: "find_best_response env user_input = Inr r"
    using find_best_response_total [of env user_input] by blast
  from resolve_calls [OF r [unfolded eq], of original_input] obtain rest
    where c: "calls r = (Detect original_input
                # (if flag then [Translate original_input ''auto'' ''en''] else [])) @ rest"
      and rest: "Translate original_input ''auto'' ''en'' \<notin> set rest"
    by blast
  have n: "count_list (calls r) (Translate original_input ''auto'' ''en'') = (if flag then 1 else 0)"
    using rest by (simp add: c count_list_0_iff)
  have d: "has_devanagari original_input \<longrightarrow> Translate original_input ''auto'' ''en'' \<in> set (calls r)"
    using flag by (simp add: c)
  from rd(1) eq r n d show ?thesis by blast
qed

theorem needs_translation_gates_inbound_witness:
  "detect english_only_services namaste_hi = Some ''en'' \<and>
   find_best_response english_only_services namaste_hi =
     resolve english_only_services namaste_hi (ustr ''hello'')
       [Detect namaste_hi, Translate namaste_hi ''auto'' ''en''] \<and>
   (\<exists>r. find_best_response english_only_services namaste_hi = Inr r \<and>
        count_list (calls r) (Translate namaste_hi ''auto'' ''en'') = 1 \<and>
        Translate namaste_hi ''auto'' ''en'' \<in> set (calls r) \<and>
        confidence r = 1) \<and>
   find_best_response english_only_services (ustr '' Hello '') =
     resolve english_only_services (ustr ''Hello'') (ustr ''hello'') [Detect (ustr ''Hello'')] \<and>
   (\<exists>r. find_best_response english_only_services (ustr '' Hello '') = Inr r \<and>
        count_list (calls r) (Translate (ustr ''Hello'') ''auto'' ''en'') = 0)"
proof -
  have data: "qa_data english_only_services \<noteq> []"
    by (simp add: english_only_services_def demo_services_def)
  have d: "detect english_only_services namaste_hi = Some ''en''"
    by (simp add: english_only_services_def)
  have a: "namaste_hi = strip namaste_hi"
      "True \<longleftrightarrow> detected_lang english_only_services namaste_hi \<noteq> ''en''
         \<or> has_devanagari namaste_hi \<or> is_romanish english_only_services namaste_hi"
      "ustr ''hello'' = strip (lower (to_lower english_only_services)
          (if True then (case translate english_only_services namaste_hi ''auto'' ''en'' of
                           Some t \<Rightarrow> t | None \<Rightarrow> namaste_hi)
           else namaste_hi))"
      "detected_lang english_only_services namaste_hi \<in> set allowed_languages
         \<or> has_devanagari namaste_hi"
      "has_devanagari namaste_hi"
    by (simp_all add: english_only_services_def demo_services_def namaste_hi_def
          text_defs stage_defs)
  have b: "ustr ''Hello'' = strip (ustr '' Hello '')"
      "False \<longleftrightarrow> detected_lang english_only_services (ustr ''Hello'') \<noteq> ''en''
         \<or> has_devanagari (ustr ''Hello'') \<or> is_romanish english_only_services (ustr ''Hello'')"
      "ustr ''hello'' = strip (lower (to_lower english_only_services)
          (if False then (case translate english_only_services (ustr ''Hello'') ''auto'' ''en'' of
                            Some t \<Rightarrow> t | None \<Rightarrow> ustr ''Hello'')
           else ustr ''Hello''))"
      "detected_lang english_only_services (ustr ''Hello'') \<in> set allowed_languages
         \<or> has_devanagari (ustr ''Hello'')"
    by (simp_all add: english_only_services_def demo_services_def text_defs stage_defs)
  have "fst (match_patterns predefined_responses (ustr ''hello''))
          = Some (ustr ''Hello! How can I assist you today?'')"
    by (rule match_patterns_hit [OF _ _ predefined_patterns_distinct])
       (simp_all add: predefined_responses_def re_fullmatch_def)
  then obtain tried where m: "match_patterns predefined_responses (ustr ''hello'')
      = (Some (ustr ''Hello! How can I assist you today?''), tried)"
    by (cases "match_patterns predefined_responses (ustr ''hello'')") simp
  note hit = resolve_hit [OF m, of english_only_services namaste_hi
      "[Detect namaste_hi, Translate namaste_hi ''auto'' ''en'']"]
  note A = needs_translation_gates_inbound [OF data a(1) a(2) a(3) a(4)]
  note B = needs_translation_gates_inbound [OF data b(1) b(2) b(3) b(4)]
  from A have A1: "find_best_response english_only_services namaste_hi =
     resolve english_only_services namaste_hi (ustr ''hello'')
       [Detect namaste_hi, Translate namaste_hi ''auto'' ''en'']"
    by simp
  from A a(5) obtain r where r0: "find_best_response english_only_services namaste_hi = Inr r"
      "count_list (calls r) (Translate namaste_hi ''auto'' ''en'') = (if True then 1 else 0)"
      "Translate namaste_hi ''auto'' ''en'' \<in> set (calls r)"
    by blast
  from r0 have r: "find_best_response english_only_services namaste_hi = Inr r"
      "count_list (calls r) (Translate namaste_hi ''auto'' ''en'') = 1"
      "Translate namaste_hi ''auto'' ''en'' \<in> set (calls r)"
    by simp_all
  from r(1) A1 hit have "confidence r = 1"
    by (auto simp: reply_def)
  with r have A2: "\<exists>r. find_best_response english_only_services namaste_hi = Inr r \<and>
        count_list (calls r) (Translate namaste_hi ''auto'' ''en'') = 1 \<and>
        Translate namaste_hi ''auto'' ''en'' \<in> set (calls r) \<and>
        confidence r = 1"
    by blast
  from B have B1: "find_best_response english_only_services (ustr '' Hello '') =
     resolve english_only_services (ustr ''Hello'') (ustr ''hello'') [Detect (ustr ''Hello'')]"
    by simp
  from B obtain r' where r': "find_best_response english_only_services (ustr '' Hello '') = Inr r'"
      "count_list (calls r') (Translate (ustr ''Hello'') ''auto'' ''en'') = (if False then 1 else 0)"
    by blast
  then have B2: "\<exists>r. find_best_response english_only_services (ustr '' Hello '') = Inr r \<and>
        count_list (calls r) (Translate (ustr ''Hello'') ''auto'' ''en'') = 0"
    by simp
  from d A1 A2 B1 B2 show ?thesis
    by blast
qed

text \<open>
  Claim C8. \<open>find_best_response\<close> always returns a result, whatever the translation
  service does; and its result is the one it gives when every failing translation call,
  at whichever of the three call sites, returns its input text unchanged instead.
\<close>

theorem translation_failure_non_fatal:
  "(\<exists>r. find_best_response env user_input = Inr r) \<and>
   find_best_response env user_input =
     find_best_response (env\<lparr>translate := substitute_untranslated (translate env)\<rparr>) user_input"
proof
  from find_best_response_total [of env user_input]
  show "\<exists>r. find_best_response env user_input = Inr r" by blast
  show "find_best_response env user_input =
     find_best_response (env\<lparr>translate := substitute_untranslated (translate env)\<rparr>) user_input"
    by (simp add: find_best_response_def resolve_def Let_def substitute_translated substitute_outbound
          split: prod.split option.split)
qed

theorem translation_failure_non_fatal_witness:
  "(\<exists>r. find_best_response offline_services namaste_hi = Inr r \<and>
        response r = fallback_message \<and> confidence r = 1 / 4) \<and>
   (\<exists>r. find_best_response demo_services kisan_hi = Inr r \<and>
        response r = fallback_message \<and> confidence r = 1 / 4)"
proof -
  define tr where "tr = substitute_untranslated (translate offline_services)"
  define env where "env = offline_services\<lparr>translate := tr\<rparr>"
  have tr: "tr t src dest = Some t" for t src dest
    by (simp add: tr_def substitute_untranslated_def offline_services_def)
  have env: "qa_data env = qa_data demo_services" "detect env = detect demo_services"
      "cos_sim env = cos_sim demo_services" "to_lower env = to_lower demo_services"
      "translate env = tr"
    by (simp_all add: env_def offline_services_def)
  have s: "strip namaste_hi = namaste_hi" "strip kisan_hi = kisan_hi"
    by (simp_all add: namaste_hi_def kisan_hi_def text_defs)
  have a: "\<not> rejected env namaste_hi" "needs_translation env namaste_hi"
      "translated env namaste_hi = namaste_hi"
    by (simp_all add: rejected_def needs_translation_def translated_def detected_lang_def
          is_romanish_def env tr)
       (simp_all add: demo_services_def namaste_hi_def text_defs has_devanagari_def)
  have am: "fst (match_patterns predefined_responses namaste_hi) = None"
    unfolding match_patterns_miss
    by (simp add: predefined_responses_def re_fullmatch_def ustr_def namaste_hi_def)
  then obtain tried where m: "match_patterns predefined_responses namaste_hi = (None, tried)"
    by (cases "match_patterns predefined_responses namaste_hi") simp
  have as: "similarities env namaste_hi = [1 / 4, 1 / 8]"
    by (simp add: similarities_def env) (simp add: demo_services_def ustr_def namaste_hi_def)
  have ev: "\<exists>r. find_best_response env namaste_hi = Inr r \<and>
                response r = fallback_message \<and> confidence r = 1 / 4"
    using a m as env(1) demo_data
    by (simp add: find_best_response_def resolve_def Let_def s reply_def outbound_def env(5) tr)
  have b: "\<not> rejected demo_services kisan_hi" "needs_translation demo_services kisan_hi"
      "detected_lang demo_services kisan_hi = ''hi''"
      "translated demo_services kisan_hi = ustr ''tractor price''"
    by (simp_all add: demo_services_def kisan_hi_def namaste_hi_def gehun_hi_def text_defs stage_defs)
  have bm: "fst (match_patterns predefined_responses (ustr ''tractor price'')) = None"
    unfolding match_patterns_miss
    by (simp add: predefined_responses_def re_fullmatch_def ustr_def)
  then obtain tried' where m': "match_patterns predefined_responses (ustr ''tractor price'') = (None, tried')"
    by (cases "match_patterns predefined_responses (ustr ''tractor price'')") simp
  have bs: "similarities demo_services (ustr ''tractor price'') = [1 / 4, 1 / 8]"
    by (simp add: similarities_def demo_services_def ustr_def)
  have bt: "translate demo_services fallback_message ''en'' ''hi'' = None"
    by (simp add: demo_services_def)
  have ev': "\<exists>r. find_best_response
                   (demo_services\<lparr>translate := substitute_untranslated (translate demo_services)\<rparr>)
                   kisan_hi = Inr r \<and>
                response r = fallback_message \<and> confidence r = 1 / 4"
    using b m' bs bt demo_data
    by (simp add: find_best_response_def resolve_def Let_def s reply_def substitute_translated
          substitute_outbound outbound_def substitute_untranslated_def)
  from translation_failure_non_fatal [of offline_services namaste_hi]
       translation_failure_non_fatal [of demo_services kisan_hi] ev ev'
  show ?thesis
    by (simp add: env_def tr_def)
qed

text \<open>
  Claim C9 says that every request is answered with status 400 or with status 200. A
  body whose \<open>message\<close> is \<open>null\<close> or a number, and a body that is no object, raise
  \<open>AttributeError\<close> at \<open>data.get("message", "").strip()\<close>: the answer is neither.
\<close>

theorem chat_non_string_message_counterexample:
  "chat demo_services (JObject [ustr ''message'' \<mapsto> JNull]) = Inl AttributeError \<and>
   chat demo_services (JObject [ustr ''message'' \<mapsto> JNumber 5]) = Inl AttributeError \<and>
   chat demo_services JNull = Inl AttributeError"
  by (simp add: chat_def)

text \<open>
  Claim C9, amended. For a request body that is an object whose \<open>message\<close> is absent or a
  string: if the message is absent or empty after trimming the answer is status 400 with
  the fixed body; otherwise it is status 200 with the response of \<open>find_best_response\<close> on
  the trimmed message and its confidence rounded to two decimals (a multiple of 0.01
  within 0.005 of the unrounded confidence that \<open>find_best_response\<close> returns).
\<close>

theorem chat_endpoint:
  assumes "members (ustr ''message'') = None \<and> message = []
           \<or> members (ustr ''message'') = Some (JString message)"
  shows "(strip message = [] \<longrightarrow>
            chat env (JObject members) =
              Inr \<lparr>status = 400, body_response = ustr ''Please enter a valid question.'',
                   body_confidence = 0\<rparr>) \<and>
         (strip message \<noteq> [] \<longrightarrow>
            (\<exists>r k. find_best_response env (strip message) = Inr r \<and>
               chat env (JObject members) =
                 Inr \<lparr>status = 200, body_response = response r,
                      body_confidence = round2 (confidence r)\<rparr> \<and>
               round2 (confidence r) = of_int k / 100 \<and>
               \<bar>round2 (confidence r) - confidence r\<bar> \<le> 1 / 200))"
proof -
  obtain r where r: "find_best_response env (strip message) = Inr r"
    using find_best_response_total [of env "strip message"] by blast
  obtain k :: int where k: "round2 (confidence r) = of_int k / 100"
    using round2_multiple [of "confidence r"] by blast
  from assms r k round2_near [of "confidence r"] show ?thesis
    by (auto simp: chat_def Let_def)
qed

theorem chat_endpoint_witness:
  "chat demo_services (JObject Map.empty) =
     Inr \<lparr>status = 400, body_response = ustr ''Please enter a valid question.'', body_confidence = 0\<rparr> \<and>
   chat demo_services (JObject [ustr ''message'' \<mapsto> JString (ustr ''   '')]) =
     Inr \<lparr>status = 400, body_response = ustr ''Please enter a valid question.'', body_confidence = 0\<rparr> \<and>
   chat demo_services (JObject [ustr ''message'' \<mapsto> JString (ustr '' wheat rust'')]) =
     Inr \<lparr>status = 200, body_response = ustr ''Sow wheat in November.'', body_confidence = 76 / 100\<rparr>"
proof -
  have s: "strip [] = []" "strip (ustr ''   '') = []" "strip (ustr '' wheat rust'') = ustr ''wheat rust''"
      "strip (ustr ''wheat rust'') = ustr ''wheat rust''"
    by (simp_all add: text_defs)
  have ne: "ustr ''wheat rust'' \<noteq> []"
    by (simp add: ustr_def)
  have b: "\<not> rejected demo_services (ustr ''wheat rust'')"
      "\<not> needs_translation demo_services (ustr ''wheat rust'')"
      "translated demo_services (ustr ''wheat rust'') = ustr ''wheat rust''"
    by (simp_all add: demo_services_def text_defs stage_defs)
  have bm: "fst (match_patterns predefined_responses (ustr ''wheat rust'')) = None"
    unfolding match_patterns_miss
    by (simp add: predefined_responses_def re_fullmatch_def ustr_def)
  then obtain tried where m: "match_patterns predefined_responses (ustr ''wheat rust'') = (None, tried)"
    by (cases "match_patterns predefined_responses (ustr ''wheat rust'')") simp
  have bs: "similarities demo_services (ustr ''wheat rust'') = [97 / 128, 1 / 8]"
    by (simp add: similarities_def demo_services_def ustr_def)
  have q: "snd (qa_data demo_services ! 0) = ustr ''Sow wheat in November.''"
      "length (qa_data demo_services) = 2"
    by (simp_all add: demo_services_def)
  have ev: "\<exists>cs. find_best_response demo_services (ustr ''wheat rust'') =
               Inr (reply (ustr ''Sow wheat in November.'') (97 / 128) cs)"
    using b m bs q demo_data
    by (simp add: find_best_response_def resolve_def Let_def s outbound_def reply_def)
  have r: "round2 (97 / 128) = 76 / 100"
    by (simp add: round2_def Let_def)
  from chat_endpoint [of Map.empty "[]" demo_services]
       chat_endpoint [of "[ustr ''message'' \<mapsto> JString (ustr ''   '')]" "ustr ''   ''" demo_services]
       chat_endpoint [of "[ustr ''message'' \<mapsto> JString (ustr '' wheat rust'')]"
          "ustr '' wheat rust''" demo_services] ev
  show ?thesis
    by (auto simp: s ne r reply_def)
qed

text \<open>
  Claim C10 says that every input with a keyword inside a longer word is forced to the
  Hindi tag and triggers translation. With the data set file missing, the input
  \<open>What is a program\<close> contains \<open>rog\<close>, and it is answered with the "no data" message
  without any call: nothing is translated.
\<close>

theorem keyword_empty_dataset_counterexample:
  "qa_data no_data_services = [] \<and>
   ustr ''rog'' \<in> set hindi_marathi_keywords \<and>
   lower (to_lower no_data_services) (strip (ustr ''What is a program''))
     = ustr ''what is a p'' @ ustr ''rog'' @ ustr ''ram'' \<and>
   is_romanish no_data_services (strip (ustr ''What is a program'')) \<and>
   find_best_response no_data_services (ustr ''What is a program'') =
     Inr \<lparr>response = no_data_message, confidence = 0, calls = []\<rparr>"
proof -
  have data: "qa_data no_data_services = []"
    by (simp add: no_data_services_def load_dataset_def)
  have k: "ustr ''rog'' \<in> set hindi_marathi_keywords"
    by (simp add: hindi_marathi_keywords_def)
  have l: "lower (to_lower no_data_services) (strip (ustr ''What is a program''))
             = ustr ''what is a p'' @ ustr ''rog'' @ ustr ''ram''"
      "is_romanish no_data_services (strip (ustr ''What is a program''))"
    by (simp_all add: no_data_services_def demo_services_def text_defs is_romanish_def
          hindi_marathi_keywords_def)
  from data k l show ?thesis
    by (simp add: find_best_response_def reply_def)
qed

text \<open>
  Claim C10, amended. The keyword test is containment in the lowercased raw text, so a
  keyword anywhere inside it, also in the middle of a longer word (any \<open>pre\<close> and \<open>post\<close>),
  sets the tag to \<open>hi\<close> whatever the detector answered. With a non-empty data set the input
  is then translated: the call \<open>translate(original_input, src='auto', dest='en')\<close> follows
  the detection, and the pattern table and the embedding search work on its lowercased,
  trimmed result (on the input itself when the call fails).
\<close>

theorem keyword_inside_longer_word_forces_hindi:
  assumes data: "qa_data env \<noteq> []"
    and orig: "original_input = strip user_input"
    and kw: "word \<in> set hindi_marathi_keywords"
    and sub: "lower (to_lower env) original_input = pre @ word @ post"
    and proc: "text = strip (lower (to_lower env)
                  (case translate env original_input ''auto'' ''en'' of
                     Some t \<Rightarrow> t | None \<Rightarrow> original_input))"
  shows "is_romanish env original_input \<and>
         detected_lang env original_input = ''hi'' \<and>
         find_best_response env user_input =
           resolve env original_input text
             [Detect original_input, Translate original_input ''auto'' ''en'']"
proof -
  from kw sub have rom: "is_romanish env original_input"
    unfolding is_romanish_iff by blast
  then have tag: "detected_lang env original_input = ''hi''"
    by (simp add: detected_lang_def)
  have rd: "needs_translation env original_input"
      "translated env original_input = text"
      "inbound_calls env original_input = [Translate original_input ''auto'' ''en'']"
    using rom proc
    by (simp_all add: needs_translation_def translated_def inbound_calls_def)
  from tag have pass: "\<not> rejected env (strip user_input)"
    by (simp add: rejected_def allowed_languages_def orig [symmetric])
  have "find_best_response env user_input =
           resolve env original_input text
             [Detect original_input, Translate original_input ''auto'' ''en'']"
    by (simp add: find_best_response_resolve [OF data pass] orig [symmetric] rd)
  with rom tag show ?thesis by simp
qed

theorem keyword_inside_longer_word_forces_hindi_witness:
  "detect english_only_services (ustr ''What is a program'') = Some ''en'' \<and>
   lower (to_lower english_only_services) (ustr ''What is a program'')
     = ustr ''what is a p'' @ ustr ''rog'' @ ustr ''ram'' \<and>
   is_romanish english_only_services (ustr ''What is a program'') \<and>
   detected_lang english_only_services (ustr ''What is a program'') = ''hi'' \<and>
   translate english_only_services (ustr ''What is a program'') ''auto'' ''en''
     = Some (ustr ''Tractor price'') \<and>
   find_best_response english_only_services (ustr ''What is a program'') =
     resolve english_only_services (ustr ''What is a program'') (ustr ''tractor price'')
       [Detect (ustr ''What is a program''),
        Translate (ustr ''What is a program'') ''auto'' ''en''] \<and>
   lower (to_lower english_only_services) (ustr ''savanna'') = ustr ''sav'' @ ustr ''anna'' @ [] \<and>
   detected_lang english_only_services (ustr ''savanna'') = ''hi'' \<and>
   find_best_response english_only_services (ustr ''savanna'') =
     resolve english_only_services (ustr ''savanna'') (ustr ''tractor price'')
       [Detect (ustr ''savanna''), Translate (ustr ''savanna'') ''auto'' ''en'']"
proof -
  have data: "qa_data english_only_services \<noteq> []"
    by (simp add: english_only_services_def demo_services_def)
  have d: "detect english_only_services (ustr ''What is a program'') = Some ''en''"
    by (simp add: english_only_services_def)
  have k: "ustr ''rog'' \<in> set hindi_marathi_keywords" "ustr ''anna'' \<in> set hindi_marathi_keywords"
    by (simp_all add: hindi_marathi_keywords_def)
  have s: "ustr ''What is a program'' = strip (ustr ''What is a program'')"
      "ustr ''savanna'' = strip (ustr ''savanna'')"
    by (simp_all add: text_defs)
  have l: "lower (to_lower english_only_services) (ustr ''What is a program'')
             = ustr ''what is a p'' @ ustr ''rog'' @ ustr ''ram''"
      "lower (to_lower english_only_services) (ustr ''savanna'') = ustr ''sav'' @ ustr ''anna'' @ []"
    by (simp_all add: english_only_services_def demo_services_def text_defs)
  have t: "translate english_only_services (ustr ''What is a program'') ''auto'' ''en''
             = Some (ustr ''Tractor price'')"
      "translate english_only_services (ustr ''savanna'') ''auto'' ''en''
             = Some (ustr ''Tractor price'')"
    by (simp_all add: english_only_services_def demo_services_def gehun_hi_def namaste_hi_def
          ustr_def)
  have p: "ustr ''tractor price'' = strip (lower (to_lower english_only_services)
             (case translate english_only_services (ustr ''What is a program'') ''auto'' ''en'' of
                Some t \<Rightarrow> t | None \<Rightarrow> ustr ''What is a program''))"
      "ustr ''tractor price'' = strip (lower (to_lower english_only_services)
             (case translate english_only_services (ustr ''savanna'') ''auto'' ''en'' of
                Some t \<Rightarrow> t | None \<Rightarrow> ustr ''savanna''))"
    unfolding t by (simp_all add: english_only_services_def demo_services_def text_defs)
  from keyword_inside_longer_word_forces_hindi [OF data s(1) k(1) l(1) p(1)]
       keyword_inside_longer_word_forces_hindi [OF data s(2) k(2) l(2) p(2)] d l t(1)
  show ?thesis
    by simp
qed

end
